theory Spec2Isabelle
  imports Complex_Main
begin

section \<open>JavaScript numbers\<close>

text \<open>
  Picker.tsx computes with JavaScript numbers. They are modelled as real numbers: rounding
  error, NaN and the infinities are outside the model. Where the source divides, the
  theorems below assume a non-zero divisor (in HOL \<open>x / 0 = 0\<close>, in JavaScript
  it is NaN or an infinity). A double can miss a comparison that the real number meets
  exactly: \<open>(12.4 - 3.1 * 3) / 3.1\<close> is 1 over the reals and
  \<open>0.9999999999999999\<close> in doubles. The theorems about the snap policy therefore
  keep away from quantized offsets on a cycle boundary.
\<close>

definition js_trunc :: "real \<Rightarrow> int" where
  \<comment> \<open>rounding towards zero, the quotient that the \<open>%\<close> operator uses\<close>
  "js_trunc v = (if 0 \<le> v then \<lfloor>v\<rfloor> else \<lceil>v\<rceil>)"

definition js_rem :: "real \<Rightarrow> real \<Rightarrow> real" where
  \<comment> \<open>\<open>a % b\<close>: the remainder has the sign of the dividend\<close>
  "js_rem a b = a - b * of_int (js_trunc (a / b))"

definition Math_floor :: "real \<Rightarrow> int" where
  "Math_floor v = \<lfloor>v\<rfloor>"

definition Math_round :: "real \<Rightarrow> int" where
  \<comment> \<open>\<open>Math.round\<close>: the nearest integer, a half goes up\<close>
  "Math_round v = \<lfloor>v + 1 / 2\<rfloor>"

section \<open>The GSAP utilities that Picker.tsx calls\<close>

text \<open>
  Modelled from the spec: \<open>gsap.utils.wrap\<close> belongs to the GSAP library and is not
  part of Picker.tsx. The spec gives \<open>wrap(offset)\<close> as
  \<open>((offset mod cycleDuration) + cycleDuration) mod cycleDuration\<close>; with a lower
  bound \<open>lo\<close> the value is shifted by \<open>lo\<close> before and after. \<open>mod\<close> is
  JavaScript's \<open>%\<close>.
\<close>

definition gsap_wrap :: "real \<Rightarrow> real \<Rightarrow> real \<Rightarrow> real" where
  "gsap_wrap lo hi v =
     (let range = hi - lo in js_rem (js_rem (v - lo) range + range) range + lo)"

text \<open>
  Modelled from the spec: \<open>gsap.utils.clamp\<close> belongs to the GSAP library and is not
  part of Picker.tsx. The spec names it \<open>clamp(min,max,v)\<close>: a value below
  \<open>lo\<close> becomes \<open>lo\<close>, a value above \<open>hi\<close> becomes \<open>hi\<close>.
\<close>

definition gsap_clamp :: "real \<Rightarrow> real \<Rightarrow> real \<Rightarrow> real" where
  "gsap_clamp lo hi v = (if v < lo then lo else if v > hi then hi else v)"

text \<open>
  Modelled from the spec: \<open>gsap.utils.snap\<close> belongs to the GSAP library and is not
  part of Picker.tsx. The spec names it \<open>snap(step,v)\<close>, the nearest multiple of
  \<open>step\<close>. The library rounds the quotient \<open>v / step\<close> with
  \<open>Math.round\<close>, so a value exactly half-way between two multiples goes to the upper
  one.
\<close>

definition gsap_snap :: "real \<Rightarrow> real \<Rightarrow> real" where
  "gsap_snap step v = of_int (Math_round (v / step)) * step"

section \<open>The cycle builder\<close>

record 'a animation =
  target :: 'a
  anim_duration :: real

record 'a seamless =
  rawSequence :: "('a animation \<times> real) list"
    \<comment> \<open>every animation added to the raw timeline, with its start position\<close>
  from_time :: "real option"
    \<comment> \<open>\<open>cycleDuration + dur / 2\<close>; \<open>None\<close> is NaN, when \<open>dur\<close> is undefined\<close>
  loop_duration :: real
    \<comment> \<open>the duration of the single tween of the looping timeline\<close>

definition truthy :: "real option \<Rightarrow> bool" where
  "truthy v = (case v of None \<Rightarrow> False | Some r \<Rightarrow> r \<noteq> 0)"

definition buildSeamlessLoop ::
  "'a list \<Rightarrow> real \<Rightarrow> ('a \<Rightarrow> 'a animation) \<Rightarrow> 'a seamless" where
  "buildSeamlessLoop items spacing animateFunc =
     (let cycleDuration = spacing * real (length items);
          placed = map (\<lambda>i. (animateFunc (items ! (i mod length items)), real i * spacing))
                     [0 ..< length (items @ items @ items)];
          dur = foldl (\<lambda>dur anim. if truthy dur then dur else Some (anim_duration anim))
                  None (map fst placed)
      in \<lparr>rawSequence = placed,
          from_time = map_option (\<lambda>dur. cycleDuration + dur / 2) dur,
          loop_duration = cycleDuration\<rparr>)"

definition animateFunc :: "'a \<Rightarrow> 'a animation" where
  \<comment> \<open>a timeline of two tweens that both start at 0: 0.5 s played twice (yoyo), and 1 s\<close>
  "animateFunc element = \<lparr>target = element, anim_duration = max (1 / 2 * 2) 1\<rparr>"

definition Picker_cards :: "nat list" where
  \<comment> \<open>the 31 list items of the markup\<close>
  "Picker_cards = [0 ..< 31]"

definition Picker_spacing :: real where
  "Picker_spacing = 1 / 10"

definition seamlessLoop_duration :: "'a list \<Rightarrow> real \<Rightarrow> real" where
  \<comment> \<open>\<open>seamlessLoop.duration()\<close> for the loop built from the items, for a positive spacing\<close>
  "seamlessLoop_duration items spacing = loop_duration (buildSeamlessLoop items spacing animateFunc)"

section \<open>The scrubber\<close>

record scrubber =
  iteration :: int
  vars_offset :: real   \<comment> \<open>\<open>scrub.vars.offset\<close>, the target of the smoothing tween\<close>

text \<open>The calls that a handler makes on the scroll trigger and on the tween, in order.\<close>

datatype call = Trigger_scroll real | Trigger_update | Scrub_restart

definition wrapTime :: "real \<Rightarrow> real \<Rightarrow> real" where
  "wrapTime duration v = gsap_wrap 0 duration v"

definition scrub_onUpdate :: "real \<Rightarrow> real \<Rightarrow> real" where
  \<comment> \<open>the time that the tween's \<open>onUpdate\<close> sets on the looping timeline\<close>
  "scrub_onUpdate duration playhead_offset = wrapTime duration playhead_offset"

subsection \<open>The drag driver\<close>

record draggable =
  this_startOffset :: real
  this_startX :: real
  this_x :: real

definition onPress :: "draggable \<Rightarrow> scrubber \<Rightarrow> draggable" where
  "onPress this s = this\<lparr>this_startOffset := vars_offset s\<rparr>"

definition onDrag :: "draggable \<Rightarrow> scrubber \<Rightarrow> scrubber \<times> call list" where
  "onDrag this s =
     (s\<lparr>vars_offset := this_startOffset this + (this_startX this - this_x this) * (1 / 1000)\<rparr>,
      [Scrub_restart])"

definition onDragEnd :: "draggable \<Rightarrow> scrubber \<Rightarrow> scrubber \<times> call list" where
  \<comment> \<open>the body is a comment: \<open>// scrollToOffset(scrub.vars.offset);\<close>\<close>
  "onDragEnd this s = (s, [])"

subsection \<open>The scroll driver and the snap path\<close>

record self =
  scroll :: real
  end' :: real
  direction :: real
  progress :: real

definition wrap :: "int \<Rightarrow> real \<Rightarrow> scrubber \<Rightarrow> scrubber \<times> call list" where
  "wrap iterationDelta scrollTo s =
     (s\<lparr>iteration := iteration s + iterationDelta\<rparr>, [Trigger_scroll scrollTo, Trigger_update])"

definition onUpdate :: "real \<Rightarrow> self \<Rightarrow> scrubber \<Rightarrow> scrubber \<times> call list" where
  "onUpdate duration self s =
     (if scroll self > end' self - 1 then wrap 1 1 s
      else if scroll self < 1 \<and> direction self < 0 then wrap (- 1) (end' self - 1) s
      else (s\<lparr>vars_offset := (of_int (iteration s) + progress self) * duration\<rparr>,
            [Scrub_restart]))"

definition progressToScroll :: "real \<Rightarrow> real \<Rightarrow> real" where
  "progressToScroll trigger_end p = gsap_clamp 1 (trigger_end - 1) (gsap_wrap 0 1 p * trigger_end)"

definition offsetProgress :: "real \<Rightarrow> int \<Rightarrow> real \<Rightarrow> real" where
  \<comment> \<open>the \<open>progress\<close> that \<open>scrollToOffset\<close> computes from a time\<close>
  "offsetProgress duration iter time = (time - duration * of_int iter) / duration"

definition scrollToOffset ::
  "(real \<Rightarrow> real) \<Rightarrow> real \<Rightarrow> real \<Rightarrow> real \<Rightarrow> scrubber \<Rightarrow> scrubber \<times> call list" where
  "scrollToOffset snapTime duration trigger_end v s =
     (let snappedTime = snapTime v;
          p = offsetProgress duration (iteration s) snappedTime;
          scroll = progressToScroll trigger_end p
      in if p \<ge> 1 \<or> p < 0 then wrap (Math_floor p) scroll s
         else (s, [Trigger_scroll scroll]))"

definition scrollEnd ::
  "(real \<Rightarrow> real) \<Rightarrow> real \<Rightarrow> real \<Rightarrow> scrubber \<Rightarrow> scrubber \<times> call list" where
  \<comment> \<open>the listener of ScrollTrigger's \<open>scrollEnd\<close> event\<close>
  "scrollEnd snapTime duration trigger_end s =
     scrollToOffset snapTime duration trigger_end (vars_offset s) s"

definition next_click ::
  "(real \<Rightarrow> real) \<Rightarrow> real \<Rightarrow> real \<Rightarrow> real \<Rightarrow> scrubber \<Rightarrow> scrubber \<times> call list" where
  "next_click snapTime duration trigger_end spacing s =
     scrollToOffset snapTime duration trigger_end (vars_offset s + spacing) s"

definition prev_click ::
  "(real \<Rightarrow> real) \<Rightarrow> real \<Rightarrow> real \<Rightarrow> real \<Rightarrow> scrubber \<Rightarrow> scrubber \<times> call list" where
  "prev_click snapTime duration trigger_end spacing s =
     scrollToOffset snapTime duration trigger_end (vars_offset s - spacing) s"

definition Picker_snapTime :: "real \<Rightarrow> real" where
  "Picker_snapTime = gsap_snap Picker_spacing"

definition Picker_duration :: real where
  "Picker_duration = seamlessLoop_duration Picker_cards Picker_spacing"

definition Picker_end :: real where
  \<comment> \<open>the trigger is created with \<open>start: 0\<close> and \<open>end: "+=3000"\<close>\<close>
  "Picker_end = 0 + 3000"

subsection \<open>The scroll trigger seen from the handlers\<close>

text \<open>
  Modelled from the spec: ScrollTrigger belongs to the GSAP library and is not part of
  Picker.tsx. The spec describes it as a signal \<open>{scroll, direction, progress, end}\<close>
  with \<open>progress = scroll / end\<close>, and says that a commanded scroll position is
  followed by a fresh derivation of the progress: the trigger calls the scroll driver with
  the position it was given.
\<close>

definition trigger_self :: "real \<Rightarrow> real \<Rightarrow> real \<Rightarrow> self" where
  "trigger_self trigger_end dir pos =
     \<lparr>scroll = pos, end' = trigger_end, direction = dir, progress = pos / trigger_end\<rparr>"

fun scroll_target :: "call list \<Rightarrow> real option" where
  "scroll_target [] = None"
| "scroll_target (Trigger_scroll pos # calls) = Some pos"
| "scroll_target (c # calls) = scroll_target calls"

definition snapPolicy ::
  "(real \<Rightarrow> real) \<Rightarrow> real \<Rightarrow> real \<Rightarrow> real \<Rightarrow> scrubber \<Rightarrow> scrubber \<times> call list" where
  \<comment> \<open>the \<open>scrollEnd\<close> listener, then the scroll driver at the commanded position\<close>
  "snapPolicy snapTime duration trigger_end dir s =
     (case scrollEnd snapTime duration trigger_end s of
        (s', calls) \<Rightarrow>
          (case scroll_target calls of
             None \<Rightarrow> (s', [])
           | Some pos \<Rightarrow> onUpdate duration (trigger_self trigger_end dir pos) s'))"

section \<open>The wrapped time\<close>

lemma floor_mult_bounds:
  fixes a b :: real
  assumes "0 < b"
  shows "b * of_int \<lfloor>a / b\<rfloor> \<le> a" and "a < b * of_int \<lfloor>a / b\<rfloor> + b"
proof -
  have "of_int \<lfloor>a / b\<rfloor> \<le> a / b" by (rule of_int_floor_le)
  then have "of_int \<lfloor>a / b\<rfloor> * b \<le> a" using assms by (simp only: pos_le_divide_eq)
  then show "b * of_int \<lfloor>a / b\<rfloor> \<le> a" by (simp add: mult.commute)
  have "a / b < of_int \<lfloor>a / b\<rfloor> + 1" by linarith
  then have "a < (of_int \<lfloor>a / b\<rfloor> + 1) * b" using assms by (simp only: pos_divide_less_eq)
  then show "a < b * of_int \<lfloor>a / b\<rfloor> + b" by (simp add: algebra_simps)
qed

lemma js_trunc_le_floor_Suc: "js_trunc v \<le> \<lfloor>v\<rfloor> + 1"
  unfolding js_trunc_def by (simp add: ceiling_altdef)

lemma js_rem_lower:
  assumes "0 < b"
  shows "- b \<le> js_rem a b"
proof -
  have "real_of_int (js_trunc (a / b)) \<le> of_int \<lfloor>a / b\<rfloor> + 1"
    using js_trunc_le_floor_Suc [of "a / b"] by linarith
  then have "b * real_of_int (js_trunc (a / b)) \<le> b * (of_int \<lfloor>a / b\<rfloor> + 1)"
    using assms by (simp only: mult_le_cancel_left_pos)
  moreover have "b * of_int \<lfloor>a / b\<rfloor> \<le> a" using assms by (rule floor_mult_bounds)
  ultimately show ?thesis
    unfolding js_rem_def using assms by (simp add: algebra_simps)
qed

lemma js_rem_nonneg:
  assumes "0 < b" and "0 \<le> a"
  shows "js_rem a b = a - b * of_int \<lfloor>a / b\<rfloor>"
  using assms by (simp add: js_rem_def js_trunc_def)

lemma gsap_wrap_floor:
  assumes "0 < d"
  shows "gsap_wrap 0 d v = v - d * of_int \<lfloor>v / d\<rfloor>"
proof -
  define t where "t = js_trunc (v / d)"
  have r1: "js_rem v d = v - d * of_int t" by (simp add: js_rem_def t_def)
  have nonneg: "0 \<le> js_rem v d + d" using js_rem_lower [OF assms, of v] by simp
  have "(js_rem v d + d) / d = v / d + of_int (1 - t)"
    using assms by (simp add: r1 field_simps)
  then have fl: "\<lfloor>(js_rem v d + d) / d\<rfloor> = \<lfloor>v / d\<rfloor> + (1 - t)" by simp
  have "gsap_wrap 0 d v = js_rem (js_rem v d + d) d" by (simp add: gsap_wrap_def)
  also have "\<dots> = (js_rem v d + d) - d * of_int \<lfloor>(js_rem v d + d) / d\<rfloor>"
    using assms nonneg by (rule js_rem_nonneg)
  also have "\<dots> = v - d * of_int \<lfloor>v / d\<rfloor>"
    unfolding fl by (simp add: r1 algebra_simps)
  finally show ?thesis .
qed

lemma gsap_wrap_range:
  assumes "0 < d"
  shows "0 \<le> gsap_wrap 0 d v" and "gsap_wrap 0 d v < d"
  using floor_mult_bounds [OF assms, of v] by (simp_all add: gsap_wrap_floor [OF assms])

lemma seamlessLoop_duration_eq:
  "seamlessLoop_duration items spacing = spacing * real (length items)"
  by (simp add: seamlessLoop_duration_def buildSeamlessLoop_def Let_def)

text \<open>
  Claim C1. For a loop built from at least one item with a positive spacing, and for every
  real offset, negative ones too, the wrapped time is
  \<open>((offset mod cycleDuration) + cycleDuration) mod cycleDuration\<close>, it is not
  negative, and it is below \<open>cycleDuration\<close>, the duration of the looping timeline.
\<close>

theorem wrapTime_in_cycle:
  assumes "items \<noteq> []" and "0 < spacing"
  shows "wrapTime (seamlessLoop_duration items spacing) v =
           js_rem (js_rem v (seamlessLoop_duration items spacing)
                     + seamlessLoop_duration items spacing)
             (seamlessLoop_duration items spacing)
         \<and> 0 \<le> wrapTime (seamlessLoop_duration items spacing) v
         \<and> wrapTime (seamlessLoop_duration items spacing) v < seamlessLoop_duration items spacing"
proof -
  have pos: "0 < seamlessLoop_duration items spacing"
    using assms by (simp add: seamlessLoop_duration_eq)
  show ?thesis
    using gsap_wrap_range [OF pos, of v] by (simp add: wrapTime_def gsap_wrap_def Let_def)
qed

theorem wrapTime_in_cycle_witness:
  "Picker_cards \<noteq> [] \<and> 0 < Picker_spacing
   \<and> seamlessLoop_duration Picker_cards Picker_spacing = 31 / 10
   \<and> wrapTime (seamlessLoop_duration Picker_cards Picker_spacing) (- 7) = 23 / 10
   \<and> 0 \<le> wrapTime (seamlessLoop_duration Picker_cards Picker_spacing) (- 7)
   \<and> wrapTime (seamlessLoop_duration Picker_cards Picker_spacing) (- 7)
       < seamlessLoop_duration Picker_cards Picker_spacing"
proof -
  have ne: "Picker_cards \<noteq> []" by (simp add: Picker_cards_def)
  have sp: "0 < Picker_spacing" by (simp add: Picker_spacing_def)
  have d: "seamlessLoop_duration Picker_cards Picker_spacing = 31 / 10"
    by (simp add: seamlessLoop_duration_eq Picker_cards_def Picker_spacing_def)
  have v: "wrapTime (31 / 10) (- 7) = 23 / 10"
    by (simp add: wrapTime_def gsap_wrap_def js_rem_def js_trunc_def)
  show ?thesis
    using wrapTime_in_cycle [OF ne sp, of "- 7"] ne sp v unfolding d by simp
qed

section \<open>The scroll driver\<close>

text \<open>
  Claim C3. On a scroll update: when \<open>scroll > end - 1\<close> the driver calls
  \<open>wrap\<close> with iteration delta \<open>+1\<close> and scroll target \<open>1\<close>; otherwise, when
  \<open>scroll < 1\<close> and \<open>direction < 0\<close>, it calls \<open>wrap\<close> with delta \<open>-1\<close> and
  target \<open>end - 1\<close>; otherwise it sets the tween's target offset to
  \<open>(iteration + progress) * duration\<close> and restarts the tween. The progress that the
  trigger reports is \<open>scroll / end\<close>.
\<close>

theorem onUpdate_branches:
  "(scroll self > end' self - 1 \<longrightarrow>
      onUpdate d self s = wrap 1 1 s)
   \<and> (\<not> scroll self > end' self - 1 \<and> scroll self < 1 \<and> direction self < 0 \<longrightarrow>
      onUpdate d self s = wrap (- 1) (end' self - 1) s)
   \<and> (\<not> scroll self > end' self - 1 \<and> \<not> (scroll self < 1 \<and> direction self < 0) \<longrightarrow>
      onUpdate d self s =
        (s\<lparr>vars_offset := (of_int (iteration s) + progress self) * d\<rparr>, [Scrub_restart]))
   \<and> (e \<noteq> 0 \<longrightarrow>
        progress (trigger_self e dir pos) = scroll (trigger_self e dir pos) / end' (trigger_self e dir pos))"
  by (simp add: onUpdate_def trigger_self_def)

theorem onUpdate_branches_witness:
  "onUpdate (31 / 10) (trigger_self 3000 1 (5999 / 2)) \<lparr>iteration = 4, vars_offset = 15\<rparr>
     = wrap 1 1 \<lparr>iteration = 4, vars_offset = 15\<rparr>
   \<and> onUpdate (31 / 10) (trigger_self 3000 (- 1) (1 / 2)) \<lparr>iteration = 4, vars_offset = 15\<rparr>
     = wrap (- 1) 2999 \<lparr>iteration = 4, vars_offset = 15\<rparr>
   \<and> onUpdate (31 / 10) (trigger_self 3000 1 1500) \<lparr>iteration = 4, vars_offset = 15\<rparr>
     = (\<lparr>iteration = 4, vars_offset = 279 / 20\<rparr>, [Scrub_restart])
   \<and> progress (trigger_self 3000 1 1500) = 1500 / 3000"
  using onUpdate_branches [of "trigger_self 3000 1 (5999 / 2)" "31 / 10" "\<lparr>iteration = 4, vars_offset = 15\<rparr>"]
    onUpdate_branches [of "trigger_self 3000 (- 1) (1 / 2)" "31 / 10" "\<lparr>iteration = 4, vars_offset = 15\<rparr>"]
    onUpdate_branches [of "trigger_self 3000 1 1500" "31 / 10" "\<lparr>iteration = 4, vars_offset = 15\<rparr>"
      3000 1 1500]
  by (simp add: trigger_self_def)

section \<open>The drag driver\<close>

text \<open>
  Claim C8. During a drag the tween's target offset is
  \<open>startOffset + (startX - x) * 0.001\<close>, where \<open>startOffset\<close> is the offset that
  \<open>onPress\<close> recorded. The handler restarts the tween and commands no scroll position,
  and it leaves the iteration alone. A drag of 1000 px to the left from start offset 0
  gives the target offset 1, which is item 10 at spacing 0.1.
\<close>

theorem drag_target:
  "fst (onDrag this s) =
     s\<lparr>vars_offset := this_startOffset this + (this_startX this - this_x this) * (1 / 1000)\<rparr>
   \<and> snd (onDrag this s) = [Scrub_restart]
   \<and> this_startOffset (onPress this s0) = vars_offset s0
   \<and> vars_offset (fst (onDrag ((onPress this s0)\<lparr>this_x := px\<rparr>) s))
       = vars_offset s0 + (this_startX this - px) * (1 / 1000)
   \<and> scroll_target (snd (onDrag this s)) = None
   \<and> iteration (fst (onDrag this s)) = iteration s
   \<and> vars_offset (fst (onDrag \<lparr>this_startOffset = 0, this_startX = px, this_x = px - 1000\<rparr> s)) = 1
   \<and> Math_round (1 / Picker_spacing) = 10"
  by (simp add: onDrag_def onPress_def Picker_spacing_def Math_round_def)

theorem drag_target_witness:
  "onDrag \<lparr>this_startOffset = 0, this_startX = 1200, this_x = 200\<rparr> \<lparr>iteration = 0, vars_offset = 0\<rparr>
     = (\<lparr>iteration = 0, vars_offset = 1\<rparr>, [Scrub_restart])"
  using drag_target [of "\<lparr>this_startOffset = 0, this_startX = 1200, this_x = 200\<rparr>" "\<lparr>iteration = 0, vars_offset = 0\<rparr>"]
  by (simp add: prod_eq_iff)

section \<open>Safe scroll positions\<close>

lemma gsap_clamp_range: "lo \<le> hi \<Longrightarrow> lo \<le> gsap_clamp lo hi v \<and> gsap_clamp lo hi v \<le> hi"
  by (simp add: gsap_clamp_def)

lemma gsap_clamp_id: "lo \<le> v \<Longrightarrow> v \<le> hi \<Longrightarrow> gsap_clamp lo hi v = v"
  by (simp add: gsap_clamp_def)

lemma progressToScroll_range:
  "2 \<le> e \<Longrightarrow> 1 \<le> progressToScroll e p \<and> progressToScroll e p \<le> e - 1"
  unfolding progressToScroll_def by (rule gsap_clamp_range) simp


lemma scrollToOffset_calls:
  "Trigger_scroll pos \<in> set (snd (scrollToOffset snapTime d e v s))
     \<Longrightarrow> pos = progressToScroll e (offsetProgress d (iteration s) (snapTime v))"
  by (simp add: scrollToOffset_def wrap_def Let_def split: if_splits)

lemma gsap_wrap_unit: "gsap_wrap 0 1 p = p - of_int \<lfloor>p\<rfloor>"
  using gsap_wrap_floor [of 1 p] by simp

lemma gsap_wrap_unit_id: "0 \<le> p \<Longrightarrow> p < 1 \<Longrightarrow> gsap_wrap 0 1 p = p"
proof -
  assume "0 \<le> p" "p < 1"
  then have "\<lfloor>p\<rfloor> = 0" by linarith
  then show ?thesis by (simp add: gsap_wrap_unit)
qed

text \<open>
  Claim C10. For every progress \<open>p\<close>, also outside \<open>[0, 1]\<close>,
  \<open>progressToScroll\<close> wraps \<open>p\<close> into \<open>[0, 1)\<close>, scales it by the trigger's end
  and clamps the product. When the end is at least 2 the result lies in
  \<open>[1, end - 1]\<close>, and so does every scroll position that the snap path commands.
\<close>

theorem progressToScroll_safe:
  assumes "2 \<le> e" and "d \<noteq> 0"
  shows "progressToScroll e p = gsap_clamp 1 (e - 1) (gsap_wrap 0 1 p * e)
         \<and> 0 \<le> gsap_wrap 0 1 p \<and> gsap_wrap 0 1 p < 1
         \<and> 1 \<le> progressToScroll e p \<and> progressToScroll e p \<le> e - 1
         \<and> (\<forall>pos. Trigger_scroll pos \<in> set (snd (scrollToOffset snapTime d e v s))
               \<longrightarrow> 1 \<le> pos \<and> pos \<le> e - 1)"
  using progressToScroll_range [OF assms(1)] gsap_wrap_range [of 1 p]
  by (auto simp add: progressToScroll_def dest!: scrollToOffset_calls)

theorem progressToScroll_safe_witness:
  "(2::real) \<le> 3000 \<and> (31 / 10 :: real) \<noteq> 0
   \<and> progressToScroll 3000 (- 3 / 4) = 750
   \<and> progressToScroll 3000 5 = 1
   \<and> progressToScroll 3000 (11999 / 12000) = 2999
   \<and> 1 \<le> progressToScroll 3000 (- 3 / 4) \<and> progressToScroll 3000 (- 3 / 4) \<le> 3000 - 1
   \<and> Trigger_scroll 1 \<in> set (snd (scrollToOffset (gsap_snap (1 / 10)) (31 / 10) 3000 (307 / 100)
         \<lparr>iteration = 0, vars_offset = 3\<rparr>))"
proof -
  have e: "(2::real) \<le> 3000" and d: "(31 / 10 :: real) \<noteq> 0" by simp_all
  have v: "progressToScroll 3000 (- 3 / 4) = 750" "progressToScroll 3000 5 = 1"
    "progressToScroll 3000 (11999 / 12000) = 2999"
    by (simp_all add: progressToScroll_def gsap_wrap_def gsap_clamp_def js_rem_def js_trunc_def)
  have c: "Trigger_scroll 1 \<in> set (snd (scrollToOffset (gsap_snap (1 / 10)) (31 / 10) 3000 (307 / 100)
         \<lparr>iteration = 0, vars_offset = 3\<rparr>))"
    by (simp add: scrollToOffset_def offsetProgress_def gsap_snap_def Math_round_def
        Math_floor_def wrap_def progressToScroll_def gsap_wrap_def gsap_clamp_def js_rem_def
        js_trunc_def Let_def)
  show ?thesis
    using progressToScroll_safe [OF e d, of "- 3 / 4" "gsap_snap (1 / 10)" "307 / 100"
        "\<lparr>iteration = 0, vars_offset = 3\<rparr>"] v c e d
    by simp
qed

section \<open>From scroll position to offset and back\<close>

lemma onUpdate_inside:
  assumes "1 \<le> pos" and "pos \<le> e - 1"
  shows "onUpdate d (trigger_self e dir pos) s
           = (s\<lparr>vars_offset := (of_int (iteration s) + pos / e) * d\<rparr>, [Scrub_restart])"
  using assms by (simp add: onUpdate_def trigger_self_def)

lemma offsetProgress_of_driver:
  assumes "d \<noteq> 0"
  shows "offsetProgress d i ((of_int i + r) * d) = r"
  using assms by (simp add: offsetProgress_def field_simps)

text \<open>
  Claim C7. For a scroll position \<open>pos\<close> in \<open>[1, end - 1]\<close> (the claim asks for the
  interior only) and a non-zero cycle duration, the scroll driver sets the offset
  \<open>(iteration + pos / end) * duration\<close>, and the progress
  \<open>(offset - duration * iteration) / duration\<close> of that offset is mapped back to
  \<open>pos\<close> by \<open>progressToScroll\<close>. Over the reals the round trip is exact.
\<close>

theorem scroll_roundtrip:
  assumes "1 \<le> pos" and "pos \<le> e - 1" and "d \<noteq> 0"
  shows "vars_offset (fst (onUpdate d (trigger_self e dir pos) s)) = (of_int (iteration s) + pos / e) * d
         \<and> progressToScroll e
             (offsetProgress d (iteration s) (vars_offset (fst (onUpdate d (trigger_self e dir pos) s))))
           = pos"
proof -
  have e: "0 < e" using assms by linarith
  have r: "0 \<le> pos / e" "pos / e < 1" using assms e by simp_all
  have "progressToScroll e (pos / e) = gsap_clamp 1 (e - 1) (pos / e * e)"
    by (simp add: progressToScroll_def gsap_wrap_unit_id [OF r])
  also have "\<dots> = pos" using assms e by (simp add: gsap_clamp_id)
  finally show ?thesis
    by (simp add: onUpdate_inside [OF assms(1,2)] offsetProgress_of_driver [OF assms(3)])
qed

theorem scroll_roundtrip_witness:
  "progressToScroll 3000 (offsetProgress (31 / 10) 2
       (vars_offset (fst (onUpdate (31 / 10) (trigger_self 3000 1 1234) \<lparr>iteration = 2, vars_offset = 0\<rparr>))))
     = 1234
   \<and> vars_offset (fst (onUpdate (31 / 10) (trigger_self 3000 1 1234) \<lparr>iteration = 2, vars_offset = 0\<rparr>))
     = 112127 / 15000"
  using scroll_roundtrip [of 1234 3000 "31 / 10" 1 "\<lparr>iteration = 2, vars_offset = 0\<rparr>"]
  by simp

section \<open>The snap policy\<close>






lemma progressToScroll_frac: "progressToScroll e (p - of_int j) = progressToScroll e p"
  by (simp add: progressToScroll_def gsap_wrap_unit)





section \<open>The component's configuration, evaluated\<close>

lemma Picker_duration_eq: "Picker_duration = 31 / 10"
  by (simp add: Picker_duration_def seamlessLoop_duration_eq Picker_cards_def Picker_spacing_def)

lemmas snap_path_defs = scrollToOffset_def offsetProgress_def
      Picker_snapTime_def Picker_spacing_def Picker_end_def gsap_snap_def Math_round_def
      Math_floor_def wrap_def progressToScroll_def gsap_wrap_def gsap_clamp_def js_rem_def
      js_trunc_def Let_def

section \<open>How far one wrap moves the iteration\<close>

lemma scrollToOffset_state:
  "fst (scrollToOffset snapTime d e v s)
     = s\<lparr>iteration := iteration s + \<lfloor>offsetProgress d (iteration s) (snapTime v)\<rfloor>\<rparr>"
proof -
  let ?p = "offsetProgress d (iteration s) (snapTime v)"
  show ?thesis
  proof (cases "?p \<ge> 1 \<or> ?p < 0")
    case True
    then show ?thesis
      by (simp add: scrollToOffset_def wrap_def Let_def Math_floor_def)
  next
    case False
    then have "\<lfloor>?p\<rfloor> = 0" by linarith
    then show ?thesis using False
      by (simp add: scrollToOffset_def Let_def)
  qed
qed

text \<open>
  Claim C2, as stated: every wrap changes the iteration by exactly one, also when the offset
  handed to the snap path is more than a cycle away. It fails: after drags have moved the
  target offset to 6.9 at iteration 0, a click on "next" hands 7.0 to \<open>scrollToOffset\<close>;
  the progress is 7.0 / 3.1, its floor is 2, and the single call of \<open>wrap\<close> adds 2.
\<close>

theorem next_click_two_cycles_counterexample:
  "snd (next_click Picker_snapTime Picker_duration Picker_end Picker_spacing
       \<lparr>iteration = 0, vars_offset = 69 / 10\<rparr>) = [Trigger_scroll (24000 / 31), Trigger_update]
   \<and> iteration (fst (next_click Picker_snapTime Picker_duration Picker_end Picker_spacing
       \<lparr>iteration = 0, vars_offset = 69 / 10\<rparr>)) - 0 = 2
   \<and> \<bar>iteration (fst (next_click Picker_snapTime Picker_duration Picker_end Picker_spacing
       \<lparr>iteration = 0, vars_offset = 69 / 10\<rparr>)) - 0\<bar> \<noteq> 1"
  by (simp add: next_click_def snap_path_defs Picker_duration_eq)

text \<open>
  Claim C2, amended. \<open>wrap\<close> adds its delta to the iteration. A wrap raised by the scroll
  driver changes the iteration by exactly one, up or down, and a scroll update without a
  wrap leaves it alone. The snap path changes the iteration by the floor of the progress
  \<open>(snap(offset) - duration * iteration) / duration\<close>; that is a change of exactly one
  precisely when the progress lies in \<open>[-1, 0)\<close> or in \<open>[1, 2)\<close>.
\<close>

theorem iteration_steps:
  assumes "d \<noteq> 0"
  shows "iteration (fst (wrap delta pos s)) = iteration s + delta
   \<and> (scroll_target (snd (onUpdate d self s)) \<noteq> None \<longrightarrow>
        \<bar>iteration (fst (onUpdate d self s)) - iteration s\<bar> = 1)
   \<and> (scroll_target (snd (onUpdate d self s)) = None \<longrightarrow>
        iteration (fst (onUpdate d self s)) = iteration s)
   \<and> iteration (fst (scrollToOffset snapTime d e v s))
        = iteration s + \<lfloor>offsetProgress d (iteration s) (snapTime v)\<rfloor>
   \<and> (\<bar>iteration (fst (scrollToOffset snapTime d e v s)) - iteration s\<bar> = 1
        \<longleftrightarrow> (- 1 \<le> offsetProgress d (iteration s) (snapTime v)
              \<and> offsetProgress d (iteration s) (snapTime v) < 0)
            \<or> (1 \<le> offsetProgress d (iteration s) (snapTime v)
              \<and> offsetProgress d (iteration s) (snapTime v) < 2))"
proof -
  let ?p = "offsetProgress d (iteration s) (snapTime v)"
  have a: "iteration (fst (wrap delta pos s)) = iteration s + delta" by (simp add: wrap_def)
  have b: "scroll_target (snd (onUpdate d self s)) \<noteq> None \<longrightarrow>
        \<bar>iteration (fst (onUpdate d self s)) - iteration s\<bar> = 1"
    by (simp add: onUpdate_def wrap_def)
  have c: "scroll_target (snd (onUpdate d self s)) = None \<longrightarrow>
        iteration (fst (onUpdate d self s)) = iteration s"
    by (simp add: onUpdate_def wrap_def)
  have e: "iteration (fst (scrollToOffset snapTime d e v s)) = iteration s + \<lfloor>?p\<rfloor>"
    by (simp add: scrollToOffset_state)
  have "\<bar>\<lfloor>?p\<rfloor>\<bar> = 1 \<longleftrightarrow> \<lfloor>?p\<rfloor> = - 1 \<or> \<lfloor>?p\<rfloor> = 1" by linarith
  also have "\<dots> \<longleftrightarrow> (- 1 \<le> ?p \<and> ?p < 0) \<or> (1 \<le> ?p \<and> ?p < 2)"
    by (simp add: floor_eq_iff)
  finally have f: "\<bar>iteration (fst (scrollToOffset snapTime d e v s)) - iteration s\<bar> = 1
        \<longleftrightarrow> (- 1 \<le> ?p \<and> ?p < 0) \<or> (1 \<le> ?p \<and> ?p < 2)"
    by (simp add: e)
  show ?thesis using a b c e f by blast
qed

theorem iteration_steps_witness:
  "iteration (fst (onUpdate (31 / 10) (trigger_self 3000 1 (5999 / 2)) \<lparr>iteration = 4, vars_offset = 15\<rparr>)) = 5
   \<and> iteration (fst (onUpdate (31 / 10) (trigger_self 3000 (- 1) (1 / 2)) \<lparr>iteration = 4, vars_offset = 15\<rparr>)) = 3
   \<and> iteration (fst (onUpdate (31 / 10) (trigger_self 3000 1 1500) \<lparr>iteration = 4, vars_offset = 15\<rparr>)) = 4
   \<and> iteration (fst (scrollToOffset Picker_snapTime (31 / 10) 3000 (307 / 100) \<lparr>iteration = 0, vars_offset = 3\<rparr>)) = 1
   \<and> iteration (fst (scrollToOffset Picker_snapTime (31 / 10) 3000 7 \<lparr>iteration = 0, vars_offset = 7\<rparr>)) = 2"
proof -
  have d: "(31 / 10 :: real) \<noteq> 0" by simp
  show ?thesis
  using
    iteration_steps [OF d, of 1 1 "\<lparr>iteration = 4, vars_offset = 15\<rparr>"
      "trigger_self 3000 1 (5999 / 2)" Picker_snapTime 3000 "307 / 100"]
    iteration_steps [OF d, of 1 1 "\<lparr>iteration = 4, vars_offset = 15\<rparr>"
      "trigger_self 3000 (- 1) (1 / 2)" Picker_snapTime 3000 "307 / 100"]
    iteration_steps [OF d, of 1 1 "\<lparr>iteration = 4, vars_offset = 15\<rparr>"
      "trigger_self 3000 1 1500" Picker_snapTime 3000 "307 / 100"]
    iteration_steps [OF d, of 1 1 "\<lparr>iteration = 0, vars_offset = 3\<rparr>"
      "trigger_self 3000 1 1500" Picker_snapTime 3000 "307 / 100"]
    iteration_steps [OF d, of 1 1 "\<lparr>iteration = 0, vars_offset = 7\<rparr>"
      "trigger_self 3000 1 1500" Picker_snapTime 3000 7]
  by (simp add: onUpdate_def wrap_def trigger_self_def snap_path_defs)
qed

section \<open>Wrapping in the snap path\<close>

text \<open>
  Claim C4, as stated, ends with: offset 0.05 snaps to 0.0. It fails: 0.05 is exactly
  half-way between 0.0 and 0.1, the quotient 0.05 / 0.1 is 0.5, and \<open>Math.round\<close> takes
  a half upwards, so the snapped time is 0.1.
\<close>

theorem snap_half_counterexample:
  "Picker_snapTime (5 / 100) = 1 / 10 \<and> Picker_snapTime (5 / 100) \<noteq> 0"
  by (simp add: Picker_snapTime_def Picker_spacing_def gsap_snap_def Math_round_def)

text \<open>
  Claim C4, amended. When the progress recomputed from the snapped offset is at least 1 or
  negative, \<open>scrollToOffset\<close> goes through \<open>wrap\<close> with the floor of that progress;
  otherwise it only sets the scroll position. With 31 items and spacing 0.1 the cycle lasts
  3.1: offset 3.07 snaps to 3.1, its progress at iteration 0 is 1, one wrap of +1 follows
  and the progress at iteration 1 is 0. Offset 0.05 snaps to 0.1 and causes no wrap.
\<close>

theorem scrollToOffset_wraps:
  assumes "d \<noteq> 0"
  shows "(offsetProgress d (iteration s) (snapTime v) \<ge> 1 \<or> offsetProgress d (iteration s) (snapTime v) < 0
      \<longrightarrow> scrollToOffset snapTime d e v s
            = wrap \<lfloor>offsetProgress d (iteration s) (snapTime v)\<rfloor>
                (progressToScroll e (offsetProgress d (iteration s) (snapTime v))) s)
   \<and> (0 \<le> offsetProgress d (iteration s) (snapTime v) \<and> offsetProgress d (iteration s) (snapTime v) < 1
      \<longrightarrow> scrollToOffset snapTime d e v s
            = (s, [Trigger_scroll (progressToScroll e (offsetProgress d (iteration s) (snapTime v)))]))
   \<and> Picker_duration = 31 / 10
   \<and> Picker_snapTime (307 / 100) = 31 / 10
   \<and> offsetProgress Picker_duration 0 (Picker_snapTime (307 / 100)) = 1
   \<and> scrollToOffset Picker_snapTime Picker_duration Picker_end (307 / 100) \<lparr>iteration = 0, vars_offset = o1\<rparr>
       = (\<lparr>iteration = 1, vars_offset = o1\<rparr>, [Trigger_scroll 1, Trigger_update])
   \<and> offsetProgress Picker_duration 1 (Picker_snapTime (307 / 100)) = 0
   \<and> Picker_snapTime (5 / 100) = 1 / 10
   \<and> scrollToOffset Picker_snapTime Picker_duration Picker_end (5 / 100) \<lparr>iteration = 0, vars_offset = o1\<rparr>
       = (\<lparr>iteration = 0, vars_offset = o1\<rparr>, [Trigger_scroll (3000 / 31)])"
  by (simp add: snap_path_defs Picker_duration_eq)

theorem scrollToOffset_wraps_witness:
  "scrollToOffset Picker_snapTime (31 / 10) 3000 (307 / 100) \<lparr>iteration = 0, vars_offset = 3\<rparr>
     = wrap 1 1 \<lparr>iteration = 0, vars_offset = 3\<rparr>
   \<and> scrollToOffset Picker_snapTime (31 / 10) 3000 (- 1 / 5) \<lparr>iteration = 0, vars_offset = 0\<rparr>
     = wrap (- 1) (87000 / 31) \<lparr>iteration = 0, vars_offset = 0\<rparr>
   \<and> scrollToOffset Picker_snapTime (31 / 10) 3000 (5 / 100) \<lparr>iteration = 0, vars_offset = 0\<rparr>
     = (\<lparr>iteration = 0, vars_offset = 0\<rparr>, [Trigger_scroll (3000 / 31)])"
proof -
  have d: "(31 / 10 :: real) \<noteq> 0" by simp
  show ?thesis
  using
    scrollToOffset_wraps [OF d, of "\<lparr>iteration = 0, vars_offset = 3\<rparr>" Picker_snapTime
      "307 / 100" 3000 0]
    scrollToOffset_wraps [OF d, of "\<lparr>iteration = 0, vars_offset = 0\<rparr>" Picker_snapTime
      "- 1 / 5" 3000 0]
    scrollToOffset_wraps [OF d, of "\<lparr>iteration = 0, vars_offset = 0\<rparr>" Picker_snapTime
      "5 / 100" 3000 0]
  by (simp add: snap_path_defs)
qed

section \<open>Interaction end\<close>

text \<open>
  Claim C5 at a drag release. The body of \<open>onDragEnd\<close> is the commented-out call
  \<open>scrollToOffset(scrub.vars.offset)\<close>: at the target offset 0.23 the handler leaves the
  state as it is and calls nothing, although 0.23 quantizes to 0.2 and the
  \<open>scrollEnd\<close> path drives the tween there.
\<close>

theorem onDragEnd_no_snap:
  "onDragEnd this \<lparr>iteration = 0, vars_offset = 23 / 100\<rparr> = (\<lparr>iteration = 0, vars_offset = 23 / 100\<rparr>, [])
   \<and> Picker_snapTime (23 / 100) = 2 / 10
   \<and> snapPolicy Picker_snapTime Picker_duration Picker_end 1 \<lparr>iteration = 0, vars_offset = 23 / 100\<rparr>
      = (\<lparr>iteration = 0, vars_offset = 2 / 10\<rparr>, [Scrub_restart])"
  by (simp add: onDragEnd_def snapPolicy_def scrollEnd_def onUpdate_def trigger_self_def snap_path_defs Picker_duration_eq)

section \<open>Degenerate configurations\<close>

text \<open>
  Claim C6, as stated: the builder rejects an empty item list. It fails: for no items
  \<open>buildSeamlessLoop\<close> returns a loop with an empty raw sequence and cycle duration 0.
\<close>

theorem buildSeamlessLoop_empty_counterexample:
  "buildSeamlessLoop ([]::nat list) Picker_spacing animateFunc
     = \<lparr>rawSequence = [], from_time = None, loop_duration = 0\<rparr>"
  by (simp add: buildSeamlessLoop_def)

text \<open>
  Claim C6, amended. \<open>buildSeamlessLoop\<close> checks nothing: for every item list and every
  spacing it returns a loop whose cycle lasts \<open>spacing * N\<close> and whose raw sequence holds
  \<open>3 * N\<close> animations. For an empty list that is the empty loop of duration 0, and for a
  spacing of zero or less the duration is zero or negative.
\<close>

theorem buildSeamlessLoop_total:
  "loop_duration (buildSeamlessLoop items spacing anim) = spacing * real (length items)
   \<and> length (rawSequence (buildSeamlessLoop items spacing anim)) = 3 * length items
   \<and> (items = [] \<longrightarrow> buildSeamlessLoop items spacing anim
          = \<lparr>rawSequence = [], from_time = None, loop_duration = 0\<rparr>)
   \<and> (spacing \<le> 0 \<longrightarrow> loop_duration (buildSeamlessLoop items spacing anim) \<le> 0)"
  by (simp add: buildSeamlessLoop_def Let_def mult_nonpos_nonneg)

theorem buildSeamlessLoop_total_witness:
  "buildSeamlessLoop ([]::nat list) (1 / 10) animateFunc
     = \<lparr>rawSequence = [], from_time = None, loop_duration = 0\<rparr>
   \<and> loop_duration (buildSeamlessLoop Picker_cards (- 1 / 10) animateFunc) = - 31 / 10
   \<and> loop_duration (buildSeamlessLoop Picker_cards (- 1 / 10) animateFunc) \<le> 0
   \<and> length (rawSequence (buildSeamlessLoop Picker_cards (- 1 / 10) animateFunc)) = 93"
  using buildSeamlessLoop_total [of "[]::nat list" "1 / 10" animateFunc]
    buildSeamlessLoop_total [of Picker_cards "- 1 / 10" animateFunc]
  by (simp add: Picker_cards_def)

end
